theory Spec2Isabelle
  imports Complex_Main "HOL-Library.Sublist"
begin

section \<open>The adaptive task chain of task\_tools.go\<close>

text \<open>
  The embedding follows \<^verbatim>\<open>mcp-server-go/internal/tools/task_tools.go\<close>: the V2 functions
  \<^verbatim>\<open>initTaskChainV2\<close>, \<^verbatim>\<open>startStepV2\<close>, \<^verbatim>\<open>completeStepV2\<close>, \<^verbatim>\<open>renderDecisionPoint\<close>,
  \<^verbatim>\<open>insertStepsV2\<close>, \<^verbatim>\<open>updateStepsV2\<close>, \<^verbatim>\<open>deleteStepsV2\<close>, and \<^verbatim>\<open>finishChain\<close>, with
  the seven cases of the \<^verbatim>\<open>switch\<close> of \<^verbatim>\<open>wrapTaskChain\<close> that call them.

  Go mutates the session manager in place and returns a tool result; here every
  function takes the session manager and returns the new one together with the result.
\<close>

subsection \<open>Data\<close>

text \<open>
  Step numbers are \<^verbatim>\<open>float64\<close> in Go. They are modelled by rationals with exact
  arithmetic: rounding is not modelled. Every concrete run below uses numbers on which
  the conclusion does not depend on rounding (small integers, \<^verbatim>\<open>x + 0\<close>, or the same
  expression evaluated twice).
\<close>

type_synonym float64 = rat

text \<open>
  Modelled from the spec: the declarations of \<^verbatim>\<open>StepStatus\<close>, \<^verbatim>\<open>Step\<close>, \<^verbatim>\<open>TaskChain\<close>,
  \<^verbatim>\<open>TaskChainV2\<close> and \<^verbatim>\<open>SessionManager\<close> are not in the source files at hand. The
  fields are the ones task\_tools.go reads and writes; the three status constants are
  \<^verbatim>\<open>StepStatusTodo\<close>, \<^verbatim>\<open>StepStatusInProgress\<close> and \<^verbatim>\<open>StepStatusComplete\<close>.
\<close>

datatype StepStatus = StepStatusTodo | StepStatusInProgress | StepStatusComplete

record Step =
  Number :: float64
  Name :: string
  Input :: string
  Status :: StepStatus
  Summary :: string

record TaskChain =
  V1TaskID :: string
  Plan :: "string list"
  V1CurrentStep :: int
  V1Status :: string

record TaskChainV2 =
  TaskID :: string
  Description :: string
  Steps :: "Step list"
  CurrentStep :: float64
  ChainStatus :: string

text \<open>
  Both maps of the session manager. A nil Go map reads like an empty one, and every
  write in the modelled functions is preceded by the \<^verbatim>\<open>make\<close>, so nil is the empty map.
\<close>

record SessionManager =
  TaskChains :: "string \<rightharpoonup> TaskChain"
  TaskChainsV2 :: "string \<rightharpoonup> TaskChainV2"

text \<open>
  A plan entry is a \<^verbatim>\<open>map[string]interface{}\<close>; its values are taken as already
  rendered by \<^verbatim>\<open>%v\<close>. A missing key renders as \<^verbatim>\<open><nil>\<close> under \<^verbatim>\<open>%v\<close>.
\<close>

type_synonym plan_entry = "string \<rightharpoonup> string"

text \<open>
  Results. \<^verbatim>\<open>mcp.NewToolResultError\<close> is \<open>Inl\<close>, \<^verbatim>\<open>mcp.NewToolResultText\<close> is \<open>Inr\<close>.
  The fixed wording of each message is left out; the values interpolated into it are
  kept. The code has one message for a missing step in start, complete, delete and
  insert; the insert site is named \<open>AnchorNotFound\<close>.
\<close>

datatype error =
  MissingTaskID string
| EmptyPlan
| EmptyInsertPlan
| EmptyUpdatePlan
| MissingSummary
| ChainNotFound string
| StepNotFound float64
| AnchorNotFound float64
| InvalidTransition float64 StepStatus
| CannotDeleteActive float64
| NoDeleteTarget

record decision_point =
  dpNumber :: float64
  dpName :: string
  dpSummary :: string
  dpNext :: "float64 option"
  dpCompleted :: "(float64 \<times> string \<times> string option) list"
  dpRemaining :: "(float64 \<times> string \<times> string) list option"

datatype tool_text =
  StepStarted float64 string string string string
| DecisionPoint decision_point
| StepsInserted nat float64 "(float64 \<times> string) list" nat
| StepsUpdated float64 nat "(float64 \<times> string) list"
| RemainingDeleted nat nat
| StepDeleted float64 string
| ChainFinished string

type_synonym result = "error + tool_text"

subsection \<open>Helpers for the inlined loops\<close>

text \<open>
  \<^verbatim>\<open>for i := range chain.Steps { if chain.Steps[i].Number == n { ...; break } }\<close>:
  the index of the first step with the number.
\<close>

fun findIdx :: "Step list \<Rightarrow> float64 \<Rightarrow> nat option" where
  "findIdx [] n = None"
| "findIdx (s # ss) n =
     (if Number s = n then Some 0
      else (case findIdx ss n of None \<Rightarrow> None | Some i \<Rightarrow> Some (Suc i)))"

text \<open>\<^verbatim>\<open>fmt.Sprintf("%v", step["name"])\<close> and the optional \<^verbatim>\<open>step["input"]\<close>.\<close>

definition entryName :: "plan_entry \<Rightarrow> string" where
  "entryName e = (case e ''name'' of None \<Rightarrow> ''<nil>'' | Some v \<Rightarrow> v)"

definition entryInput :: "plan_entry \<Rightarrow> string" where
  "entryInput e = (case e ''input'' of None \<Rightarrow> '''' | Some v \<Rightarrow> v)"

text \<open>
  The three loops that build steps from a plan: entry \<open>i\<close> (from 0) gets the number
  \<open>num i\<close>, status Todo and an empty summary.
\<close>

fun mkSteps :: "(nat \<Rightarrow> float64) \<Rightarrow> nat \<Rightarrow> plan_entry list \<Rightarrow> Step list" where
  "mkSteps num i [] = []"
| "mkSteps num i (e # es) =
     \<lparr>Number = num i, Name = entryName e, Input = entryInput e,
      Status = StepStatusTodo, Summary = ''''\<rparr> # mkSteps num (Suc i) es"

subsection \<open>startStepV2\<close>

definition startStepV2 :: "SessionManager \<Rightarrow> string \<Rightarrow> float64 \<Rightarrow> SessionManager \<times> result" where
  "startStepV2 sm taskID stepNumber =
     (if taskID = '''' then (sm, Inl (MissingTaskID ''start''))
      else case TaskChainsV2 sm taskID of
        None \<Rightarrow> (sm, Inl (ChainNotFound taskID))
      | Some chain \<Rightarrow>
         (case findIdx (Steps chain) stepNumber of
            None \<Rightarrow> (sm, Inl (StepNotFound stepNumber))
          | Some i \<Rightarrow>
             (let targetStep = Steps chain ! i in
              if Status targetStep \<noteq> StepStatusTodo
              then (sm, Inl (InvalidTransition stepNumber (Status targetStep)))
              else
                let chain' = chain\<lparr>Steps := (Steps chain)[i := targetStep\<lparr>Status := StepStatusInProgress\<rparr>],
                                   CurrentStep := stepNumber\<rparr>
                in (sm\<lparr>TaskChainsV2 := (TaskChainsV2 sm)(taskID \<mapsto> chain')\<rparr>,
                    Inr (StepStarted stepNumber (Name targetStep) (Description chain)
                           (Input targetStep) taskID)))))"

subsection \<open>initTaskChainV2\<close>

definition initTaskChainV2 ::
  "SessionManager \<Rightarrow> string \<Rightarrow> string \<Rightarrow> plan_entry list \<Rightarrow> SessionManager \<times> result" where
  "initTaskChainV2 sm taskID description plan =
     (if taskID = '''' then (sm, Inl (MissingTaskID ''step''))
      else if length plan = 0 then (sm, Inl EmptyPlan)
      else
        let steps = mkSteps (\<lambda>i. of_nat (i + 1)) 0 plan;
            sm' = sm\<lparr>TaskChainsV2 := (TaskChainsV2 sm)(taskID \<mapsto>
                     \<lparr>TaskID = taskID, Description = description, Steps = steps,
                      CurrentStep = 1, ChainStatus = ''running''\<rparr>)\<rparr>
        in startStepV2 sm' taskID 1)"

subsection \<open>renderDecisionPoint and completeStepV2\<close>

text \<open>
  \<^verbatim>\<open>for i := range chain.Steps { if i > completedIdx && Status == Todo { ...; break } }\<close>:
  the first Todo step behind the completed one; \<open>i\<close> is the index of the head.
\<close>

fun nextTodo :: "Step list \<Rightarrow> nat \<Rightarrow> nat \<Rightarrow> Step option" where
  "nextTodo [] i completedIdx = None"
| "nextTodo (s # ss) i completedIdx =
     (if i > completedIdx \<and> Status s = StepStatusTodo then Some s
      else nextTodo ss (Suc i) completedIdx)"

text \<open>
  \<^verbatim>\<open>if len(summaryPreview) > 100 { summaryPreview = summaryPreview[:100] + "..." }\<close>.
  Go's \<^verbatim>\<open>len\<close> of a string counts bytes, as \<open>length\<close> of a \<open>string\<close> does here.
\<close>

definition summaryPreview :: "string \<Rightarrow> string" where
  "summaryPreview summary =
     (if length summary > 100 then take 100 summary @ ''...'' else summary)"

text \<open>The preview loop over the Complete steps: number, name and the summary line, if any.\<close>

fun completedPreview :: "Step list \<Rightarrow> (float64 \<times> string \<times> string option) list" where
  "completedPreview [] = []"
| "completedPreview (s # ss) =
     (if Status s = StepStatusComplete
      then (Number s, Name s,
            if Summary s \<noteq> '''' then Some (summaryPreview (Summary s)) else None)
           # completedPreview ss
      else completedPreview ss)"

fun remainingPreview :: "Step list \<Rightarrow> (float64 \<times> string \<times> string) list" where
  "remainingPreview [] = []"
| "remainingPreview (s # ss) =
     (if Status s = StepStatusTodo then (Number s, Name s, Input s) # remainingPreview ss
      else remainingPreview ss)"

definition renderDecisionPoint :: "TaskChainV2 \<Rightarrow> nat \<Rightarrow> result" where
  "renderDecisionPoint chain completedIdx =
     (let completedStep = Steps chain ! completedIdx;
          nextStep = nextTodo (Steps chain) 0 completedIdx
      in Inr (DecisionPoint
           \<lparr>dpNumber = Number completedStep, dpName = Name completedStep,
            dpSummary = Summary completedStep,
            dpNext = map_option Number nextStep,
            dpCompleted = completedPreview (Steps chain),
            dpRemaining = (if nextStep \<noteq> None then Some (remainingPreview (Steps chain))
                           else None)\<rparr>))"

definition completeStepV2 ::
  "SessionManager \<Rightarrow> string \<Rightarrow> float64 \<Rightarrow> string \<Rightarrow> SessionManager \<times> result" where
  "completeStepV2 sm taskID stepNumber summary =
     (if taskID = '''' then (sm, Inl (MissingTaskID ''complete''))
      else if summary = '''' then (sm, Inl MissingSummary)
      else case TaskChainsV2 sm taskID of
        None \<Rightarrow> (sm, Inl (ChainNotFound taskID))
      | Some chain \<Rightarrow>
         (case findIdx (Steps chain) stepNumber of
            None \<Rightarrow> (sm, Inl (StepNotFound stepNumber))
          | Some targetIdx \<Rightarrow>
             (let targetStep = Steps chain ! targetIdx in
              if Status targetStep \<noteq> StepStatusInProgress
              then (sm, Inl (InvalidTransition stepNumber (Status targetStep)))
              else
                let chain' = chain\<lparr>Steps := (Steps chain)
                               [targetIdx := targetStep\<lparr>Summary := summary,
                                                        Status := StepStatusComplete\<rparr>]\<rparr>
                in (sm\<lparr>TaskChainsV2 := (TaskChainsV2 sm)(taskID \<mapsto> chain')\<rparr>,
                    renderDecisionPoint chain' targetIdx))))"

subsection \<open>insertStepsV2\<close>

definition insertStepsV2 ::
  "SessionManager \<Rightarrow> string \<Rightarrow> float64 \<Rightarrow> plan_entry list \<Rightarrow> SessionManager \<times> result" where
  "insertStepsV2 sm taskID after insertPlan =
     (if taskID = '''' then (sm, Inl (MissingTaskID ''insert''))
      else if length insertPlan = 0 then (sm, Inl EmptyInsertPlan)
      else case TaskChainsV2 sm taskID of
        None \<Rightarrow> (sm, Inl (ChainNotFound taskID))
      | Some chain \<Rightarrow>
         (case findIdx (Steps chain) after of
            None \<Rightarrow> (sm, Inl (AnchorNotFound after))
          | Some i \<Rightarrow>
             (let insertIdx = i + 1;
                  newSteps = mkSteps (\<lambda>i. after + of_nat (i + 1) / 10) 0 insertPlan;
                  steps' = take insertIdx (Steps chain) @ newSteps @ drop insertIdx (Steps chain);
                  chain' = chain\<lparr>Steps := steps'\<rparr>
              in (sm\<lparr>TaskChainsV2 := (TaskChainsV2 sm)(taskID \<mapsto> chain')\<rparr>,
                  Inr (StepsInserted (length insertPlan) after
                         (map (\<lambda>s. (Number s, Name s)) newSteps) (length steps'))))))"

subsection \<open>updateStepsV2\<close>

text \<open>
  \<^verbatim>\<open>startIdx\<close> stays 0 when no step has the number \<^verbatim>\<open>from\<close>. The slice expression
  \<^verbatim>\<open>chain.Steps[:startIdx+1]\<close> is within the length of a non-empty step list. On an
  empty one it is beyond the length: Go panics when the capacity is 0 and reads the
  backing array otherwise. The capacity is not modelled, and that case is \<open>None\<close>.
\<close>

definition updateStepsV2 ::
  "SessionManager \<Rightarrow> string \<Rightarrow> float64 \<Rightarrow> plan_entry list \<Rightarrow> (SessionManager \<times> result) option" where
  "updateStepsV2 sm taskID from updatePlan =
     (if taskID = '''' then Some (sm, Inl (MissingTaskID ''update''))
      else if length updatePlan = 0 then Some (sm, Inl EmptyUpdatePlan)
      else case TaskChainsV2 sm taskID of
        None \<Rightarrow> Some (sm, Inl (ChainNotFound taskID))
      | Some chain \<Rightarrow>
         (let startIdx = (case findIdx (Steps chain) from of None \<Rightarrow> 0 | Some i \<Rightarrow> i);
              newSteps = mkSteps (\<lambda>i. from + of_nat i) 0 updatePlan
          in if startIdx + 1 > length (Steps chain) then None
             else
               let keptSteps = take (startIdx + 1) (Steps chain);
                   chain' = chain\<lparr>Steps := keptSteps @ newSteps\<rparr>
               in Some (sm\<lparr>TaskChainsV2 := (TaskChainsV2 sm)(taskID \<mapsto> chain')\<rparr>,
                        Inr (StepsUpdated from (length updatePlan)
                               (map (\<lambda>s. (Number s, Name s)) newSteps)))))"

subsection \<open>deleteStepsV2\<close>

definition deleteStepsV2 ::
  "SessionManager \<Rightarrow> string \<Rightarrow> float64 \<Rightarrow> string \<Rightarrow> SessionManager \<times> result" where
  "deleteStepsV2 sm taskID stepToDelete deleteScope =
     (if taskID = '''' then (sm, Inl (MissingTaskID ''delete''))
      else case TaskChainsV2 sm taskID of
        None \<Rightarrow> (sm, Inl (ChainNotFound taskID))
      | Some chain \<Rightarrow>
         if deleteScope = ''remaining'' then
           (let newSteps = filter (\<lambda>step. Status step = StepStatusComplete
                                        \<or> Status step = StepStatusInProgress) (Steps chain);
                deleted = length (Steps chain) - length newSteps;
                chain' = chain\<lparr>Steps := newSteps\<rparr>
            in (sm\<lparr>TaskChainsV2 := (TaskChainsV2 sm)(taskID \<mapsto> chain')\<rparr>,
                Inr (RemainingDeleted deleted (length newSteps))))
         else if stepToDelete > 0 then
           (case findIdx (Steps chain) stepToDelete of
              None \<Rightarrow> (sm, Inl (StepNotFound stepToDelete))
            | Some i \<Rightarrow>
               (let step = Steps chain ! i in
                if Status step = StepStatusInProgress
                then (sm, Inl (CannotDeleteActive stepToDelete))
                else
                  let chain' = chain\<lparr>Steps := take i (Steps chain) @ drop (i + 1) (Steps chain)\<rparr>
                  in (sm\<lparr>TaskChainsV2 := (TaskChainsV2 sm)(taskID \<mapsto> chain')\<rparr>,
                      Inr (StepDeleted stepToDelete (Name step)))))
         else (sm, Inl NoDeleteTarget))"

subsection \<open>finishChain\<close>

text \<open>
  \<^verbatim>\<open>if chain, ok := sm.TaskChains[taskID]; ok { chain.Status = "finished" }\<close>: the map
  read is \<^verbatim>\<open>TaskChains\<close>, the one of the linear V1 chains.
\<close>

definition finishChain :: "SessionManager \<Rightarrow> string \<Rightarrow> SessionManager \<times> result" where
  "finishChain sm taskID =
     (if taskID = '''' then (sm, Inl (MissingTaskID ''finish''))
      else
        (case TaskChains sm taskID of
           Some chain \<Rightarrow> sm\<lparr>TaskChains := (TaskChains sm)(taskID \<mapsto> chain\<lparr>V1Status := ''finished''\<rparr>)\<rparr>
         | None \<Rightarrow> sm,
         Inr (ChainFinished taskID)))"

subsection \<open>wrapTaskChain\<close>

text \<open>
  The seven modes of the \<^verbatim>\<open>switch\<close> in \<^verbatim>\<open>wrapTaskChain\<close> that make the state machine,
  each with the arguments the case passes on: \<^verbatim>\<open>step\<close> (initialize), \<^verbatim>\<open>start\<close>,
  \<^verbatim>\<open>complete\<close>, \<^verbatim>\<open>insert\<close>, \<^verbatim>\<open>update\<close>, \<^verbatim>\<open>delete\<close> and \<^verbatim>\<open>finish\<close>.
\<close>

datatype command =
  ModeStep string string "plan_entry list"
| ModeStart string float64
| ModeComplete string float64 string
| ModeInsert string float64 "plan_entry list"
| ModeUpdate string float64 "plan_entry list"
| ModeDelete string float64 string
| ModeFinish string

fun wrapTaskChain :: "SessionManager \<Rightarrow> command \<Rightarrow> (SessionManager \<times> result) option" where
  "wrapTaskChain sm (ModeStart taskID stepNumber) = Some (startStepV2 sm taskID stepNumber)"
| "wrapTaskChain sm (ModeComplete taskID stepNumber summary) =
     Some (completeStepV2 sm taskID stepNumber summary)"
| "wrapTaskChain sm (ModeStep taskID description plan) =
     Some (initTaskChainV2 sm taskID description plan)"
| "wrapTaskChain sm (ModeInsert taskID after insertPlan) =
     Some (insertStepsV2 sm taskID after insertPlan)"
| "wrapTaskChain sm (ModeUpdate taskID from updatePlan) =
     updateStepsV2 sm taskID from updatePlan"
| "wrapTaskChain sm (ModeDelete taskID stepNumber deleteScope) =
     Some (deleteStepsV2 sm taskID stepNumber deleteScope)"
| "wrapTaskChain sm (ModeFinish taskID) = Some (finishChain sm taskID)"

text \<open>A run of commands from a session manager; it stops with \<open>None\<close> where a call does.\<close>

fun runAll :: "SessionManager \<Rightarrow> command list \<Rightarrow> SessionManager option" where
  "runAll sm [] = Some sm"
| "runAll sm (c # cs) =
     (case wrapTaskChain sm c of None \<Rightarrow> None | Some (sm', r) \<Rightarrow> runAll sm' cs)"

definition newSession :: SessionManager where
  "newSession = \<lparr>TaskChains = Map.empty, TaskChainsV2 = Map.empty\<rparr>"

subsection \<open>Notions the properties are stated with\<close>

text \<open>
  The order of a step list as the data model asks for it: the numbers are pairwise
  distinct and the storage order is the ascending numeric order.
\<close>

definition chainInvariant :: "Step list \<Rightarrow> bool" where
  "chainInvariant steps = (distinct (map Number steps) \<and> sorted (map Number steps))"






definition chainStatuses :: "SessionManager \<Rightarrow> string \<Rightarrow> StepStatus list option" where
  "chainStatuses sm taskID = map_option (\<lambda>chain. map Status (Steps chain)) (TaskChainsV2 sm taskID)"

text \<open>A plan entry with a name only, and the session after a run from the empty one.\<close>

definition named :: "string \<Rightarrow> plan_entry" where
  "named n = [''name'' \<mapsto> n]"

definition after_run :: "command list \<Rightarrow> SessionManager" where
  "after_run cs = (case runAll newSession cs of None \<Rightarrow> newSession | Some sm \<Rightarrow> sm)"





section \<open>Properties\<close>

subsection \<open>Lookup and plan lemmas\<close>

lemma findIdx_Some:
  "findIdx xs n = Some i \<Longrightarrow> i < length xs \<and> Number (xs ! i) = n \<and> (\<forall>j<i. Number (xs ! j) \<noteq> n)"
proof (induction xs arbitrary: i)
  case Nil
  then show ?case by simp
next
  case (Cons a xs)
  show ?case
  proof (cases "Number a = n")
    case True
    with Cons.prems show ?thesis by simp
  next
    case False
    with Cons.prems obtain k where k: "findIdx xs n = Some k" "i = Suc k"
      by (auto split: option.splits)
    from Cons.IH[OF k(1)] False k(2) show ?thesis
      by (auto simp: less_Suc_eq_0_disj)
  qed
qed

lemma findIdx_None: "findIdx xs n = None \<longleftrightarrow> (\<forall>s \<in> set xs. Number s \<noteq> n)"
  by (induction xs) (auto split: option.splits)

lemma length_mkSteps: "length (mkSteps f i p) = length p"
  by (induction p arbitrary: i) auto

lemma nth_mkSteps:
  "k < length p \<Longrightarrow> mkSteps f i p ! k =
     \<lparr>Number = f (i + k), Name = entryName (p ! k), Input = entryInput (p ! k),
      Status = StepStatusTodo, Summary = ''''\<rparr>"
proof (induction p arbitrary: i k)
  case Nil
  then show ?case by simp
next
  case (Cons e es)
  then show ?case by (cases k) auto
qed


lemma Status_mkSteps: "s \<in> set (mkSteps f i p) \<Longrightarrow> Status s = StepStatusTodo"
  by (induction p arbitrary: i) auto

lemma init_result:
  assumes "taskID \<noteq> ''''" "plan = e # es"
  shows "initTaskChainV2 sm taskID d plan =
     (sm\<lparr>TaskChainsV2 := (TaskChainsV2 sm)(taskID \<mapsto>
         \<lparr>TaskID = taskID, Description = d,
          Steps = (mkSteps (\<lambda>i. of_nat (i + 1)) 0 plan)
                    [0 := (mkSteps (\<lambda>i. of_nat (i + 1)) 0 plan ! 0)\<lparr>Status := StepStatusInProgress\<rparr>],
          CurrentStep = 1, ChainStatus = ''running''\<rparr>)\<rparr>,
      Inr (StepStarted 1 (entryName e) d (entryInput e) taskID))"
  using assms by (simp add: initTaskChainV2_def startStepV2_def Let_def)

lemma sorted_of_nat_upt: "sorted (map (\<lambda>i. (of_nat (i + 1) :: rat)) [a..<b])"
  by (simp add: sorted_map sorted_wrt_iff_nth_less)

lemma distinct_of_nat_upt: "distinct (map (\<lambda>i. (of_nat (i + 1) :: rat)) [a..<b])"
  by (simp add: distinct_map inj_on_def)

text \<open>The definitions a concrete run unfolds.\<close>

lemmas run_defs = after_run_def newSession_def named_def entryName_def entryInput_def
  initTaskChainV2_def startStepV2_def completeStepV2_def insertStepsV2_def updateStepsV2_def
  deleteStepsV2_def finishChain_def renderDecisionPoint_def Let_def

subsection \<open>Initialization\<close>

text \<open>
  C4. For a task id that is given (not the empty string) and a non-empty plan of length
  N, \<^verbatim>\<open>initTaskChainV2\<close> succeeds and stores a chain with exactly N steps; step k (from
  0) has the number k + 1 and the name of plan entry k, so the numbers are 1..N in
  ascending plan order; every step is Todo except the first, which the automatic
  \<^verbatim>\<open>startStepV2\<close> has made InProgress; the current step is 1 and the chain is
  running. For an empty plan the call fails with \<open>EmptyPlan\<close> and changes nothing.
\<close>

theorem initialize_creates_numbered_steps:
  assumes "taskID \<noteq> ''''"
  shows "(plan = [] \<longrightarrow> initTaskChainV2 sm taskID d plan = (sm, Inl EmptyPlan)) \<and>
         (plan \<noteq> [] \<longrightarrow>
            (\<exists>chain out. snd (initTaskChainV2 sm taskID d plan) = Inr out
               \<and> TaskChainsV2 (fst (initTaskChainV2 sm taskID d plan)) taskID = Some chain
               \<and> length (Steps chain) = length plan
               \<and> (\<forall>k<length plan.
                     Number (Steps chain ! k) = of_nat (k + 1)
                   \<and> Name (Steps chain ! k) = entryName (plan ! k)
                   \<and> Status (Steps chain ! k) =
                       (if k = 0 then StepStatusInProgress else StepStatusTodo))
               \<and> chainInvariant (Steps chain)
               \<and> CurrentStep chain = 1 \<and> ChainStatus chain = ''running''))"
proof (intro conjI impI)
  assume "plan = []"
  with assms show "initTaskChainV2 sm taskID d plan = (sm, Inl EmptyPlan)"
    by (simp add: initTaskChainV2_def)
next
  assume ne: "plan \<noteq> []"
  then obtain e es where p: "plan = e # es" by (cases plan) auto
  let ?steps = "mkSteps (\<lambda>i. of_nat (i + 1)) 0 plan"
  let ?steps' = "?steps[0 := (?steps ! 0)\<lparr>Status := StepStatusInProgress\<rparr>]"
  let ?chain = "\<lparr>TaskID = taskID, Description = d, Steps = ?steps',
                 CurrentStep = 1, ChainStatus = ''running''\<rparr>"
  note r = init_result[OF assms p, of sm d]
  have len: "length ?steps' = length plan" by (simp add: length_mkSteps)
  have nth: "\<forall>k<length plan.
                     Number (?steps' ! k) = of_nat (k + 1)
                   \<and> Name (?steps' ! k) = entryName (plan ! k)
                   \<and> Status (?steps' ! k) =
                       (if k = 0 then StepStatusInProgress else StepStatusTodo)"
    by (simp add: nth_list_update length_mkSteps nth_mkSteps)
  have nums: "map Number ?steps' = map (\<lambda>i. of_nat (i + 1)) [0..<length plan]"
    using len nth by (intro nth_equalityI) simp_all
  have inv: "chainInvariant ?steps'"
    unfolding chainInvariant_def nums
    using sorted_of_nat_upt distinct_of_nat_upt by blast
  show "\<exists>chain out. snd (initTaskChainV2 sm taskID d plan) = Inr out
               \<and> TaskChainsV2 (fst (initTaskChainV2 sm taskID d plan)) taskID = Some chain
               \<and> length (Steps chain) = length plan
               \<and> (\<forall>k<length plan.
                     Number (Steps chain ! k) = of_nat (k + 1)
                   \<and> Name (Steps chain ! k) = entryName (plan ! k)
                   \<and> Status (Steps chain ! k) =
                       (if k = 0 then StepStatusInProgress else StepStatusTodo))
               \<and> chainInvariant (Steps chain)
               \<and> CurrentStep chain = 1 \<and> ChainStatus chain = ''running''"
    apply (rule exI[of _ ?chain])
    apply (rule exI[of _ "StepStarted 1 (entryName e) d (entryInput e) taskID"])
    using len nth inv by (simp add: r)
qed

theorem initialize_creates_numbered_steps_witness:
  "''T'' \<noteq> '''' \<and>
   initTaskChainV2 newSession ''T'' ''d'' [] = (newSession, Inl EmptyPlan) \<and>
   (\<exists>chain out.
       snd (initTaskChainV2 newSession ''T'' ''d'' [named ''search'', named ''analyze'']) = Inr out
     \<and> TaskChainsV2 (fst (initTaskChainV2 newSession ''T'' ''d''
                              [named ''search'', named ''analyze''])) ''T'' = Some chain
     \<and> length (Steps chain) = 2
     \<and> Number (Steps chain ! 0) = 1 \<and> Number (Steps chain ! 1) = 2
     \<and> Name (Steps chain ! 0) = ''search'' \<and> Name (Steps chain ! 1) = ''analyze''
     \<and> Status (Steps chain ! 0) = StepStatusInProgress
     \<and> Status (Steps chain ! 1) = StepStatusTodo
     \<and> chainInvariant (Steps chain)
     \<and> CurrentStep chain = 1 \<and> ChainStatus chain = ''running'')"
proof -
  have t: "''T'' \<noteq> ''''" by simp
  from initialize_creates_numbered_steps[OF t, of "[]" newSession "''d''"]
  have a: "initTaskChainV2 newSession ''T'' ''d'' [] = (newSession, Inl EmptyPlan)" by simp
  from initialize_creates_numbered_steps[OF t, of "[named ''search'', named ''analyze'']"
         newSession "''d''"]
  obtain chain out where
    c: "snd (initTaskChainV2 newSession ''T'' ''d'' [named ''search'', named ''analyze'']) = Inr out"
       "TaskChainsV2 (fst (initTaskChainV2 newSession ''T'' ''d''
                              [named ''search'', named ''analyze''])) ''T'' = Some chain"
       "length (Steps chain) = 2"
       "\<forall>k<2. Number (Steps chain ! k) = of_nat (k + 1)
            \<and> Name (Steps chain ! k) = entryName ([named ''search'', named ''analyze''] ! k)
            \<and> Status (Steps chain ! k) = (if k = 0 then StepStatusInProgress else StepStatusTodo)"
       "chainInvariant (Steps chain)" "CurrentStep chain = 1" "ChainStatus chain = ''running''"
    by auto
  from c(4) have k0: "Number (Steps chain ! 0) = 1" "Name (Steps chain ! 0) = ''search''"
      "Status (Steps chain ! 0) = StepStatusInProgress"
    by (simp_all add: entryName_def named_def)
  from c(4) have k1: "Number (Steps chain ! 1) = 2" "Name (Steps chain ! 1) = ''analyze''"
      "Status (Steps chain ! 1) = StepStatusTodo"
    by (simp_all add: entryName_def named_def)
  show ?thesis using t a c k0 k1 by blast
qed


text \<open>
  C2. The claim (a second initialization of a task id fails with DuplicateChain and
  leaves the chain as it was) does not hold: \<^verbatim>\<open>initTaskChainV2\<close> has no such check.
  After a chain with the one step \<^verbatim>\<open>a\<close> is stored under \<^verbatim>\<open>T\<close>, initializing \<^verbatim>\<open>T\<close> again
  with the plan \<^verbatim>\<open>b\<close> succeeds, and the chain under \<^verbatim>\<open>T\<close> is the one of the new plan.
\<close>

theorem initialize_overwrites_counterexample:
  "map_option (\<lambda>c. map Name (Steps c))
      (TaskChainsV2 (after_run [ModeStep ''T'' ''d'' [named ''a'']]) ''T'') = Some [''a''] \<and>
   snd (initTaskChainV2 (after_run [ModeStep ''T'' ''d'' [named ''a'']]) ''T'' ''e'' [named ''b''])
      = Inr (StepStarted 1 ''b'' ''e'' '''' ''T'') \<and>
   map_option (\<lambda>c. map Name (Steps c))
      (TaskChainsV2 (fst (initTaskChainV2 (after_run [ModeStep ''T'' ''d'' [named ''a'']])
                            ''T'' ''e'' [named ''b''])) ''T'') = Some [''b'']"
  by (simp add: run_defs)

text \<open>
  C2, as amended. When a chain is already stored under the task id, initializing it again
  with a non-empty plan succeeds and replaces the stored chain: result and store are
  the ones the call gives on the store without the old chain. With an empty plan the
  call fails with \<open>EmptyPlan\<close> and the store is unchanged.
\<close>

theorem initialize_replaces_existing_chain:
  assumes "TaskChainsV2 sm taskID = Some old" and "taskID \<noteq> ''''"
  shows "(plan = [] \<longrightarrow> initTaskChainV2 sm taskID d plan = (sm, Inl EmptyPlan)) \<and>
         (plan \<noteq> [] \<longrightarrow>
            (\<exists>out. snd (initTaskChainV2 sm taskID d plan) = Inr out) \<and>
            initTaskChainV2 sm taskID d plan =
              initTaskChainV2 (sm\<lparr>TaskChainsV2 := (TaskChainsV2 sm)(taskID := None)\<rparr>) taskID d plan)"
proof (intro conjI impI)
  assume "plan = []"
  with assms show "initTaskChainV2 sm taskID d plan = (sm, Inl EmptyPlan)"
    by (simp add: initTaskChainV2_def)
next
  assume "plan \<noteq> []"
  then obtain e es where p: "plan = e # es" by (cases plan) auto
  from init_result[OF assms(2) p] show "\<exists>out. snd (initTaskChainV2 sm taskID d plan) = Inr out"
    by simp
  show "initTaskChainV2 sm taskID d plan =
              initTaskChainV2 (sm\<lparr>TaskChainsV2 := (TaskChainsV2 sm)(taskID := None)\<rparr>) taskID d plan"
    unfolding init_result[OF assms(2) p] by simp
qed

theorem initialize_replaces_existing_chain_witness:
  "TaskChainsV2 (after_run [ModeStep ''T'' ''d'' [named ''a'']]) ''T'' \<noteq> None \<and>
   ''T'' \<noteq> '''' \<and>
   initTaskChainV2 (after_run [ModeStep ''T'' ''d'' [named ''a'']]) ''T'' ''e'' []
     = (after_run [ModeStep ''T'' ''d'' [named ''a'']], Inl EmptyPlan) \<and>
   (\<exists>out. snd (initTaskChainV2 (after_run [ModeStep ''T'' ''d'' [named ''a'']])
                  ''T'' ''e'' [named ''b'']) = Inr out) \<and>
   initTaskChainV2 (after_run [ModeStep ''T'' ''d'' [named ''a'']]) ''T'' ''e'' [named ''b'']
     = initTaskChainV2
         ((after_run [ModeStep ''T'' ''d'' [named ''a'']])
            \<lparr>TaskChainsV2 :=
               (TaskChainsV2 (after_run [ModeStep ''T'' ''d'' [named ''a'']]))(''T'' := None)\<rparr>)
         ''T'' ''e'' [named ''b'']"
proof -
  let ?s = "after_run [ModeStep ''T'' ''d'' [named ''a'']]"
  have "TaskChainsV2 ?s ''T'' \<noteq> None" by (simp add: run_defs)
  then obtain old where o: "TaskChainsV2 ?s ''T'' = Some old" by blast
  have t: "''T'' \<noteq> ''''" by simp
  from initialize_replaces_existing_chain[OF o t, of "[]" "''e''"]
  have a: "initTaskChainV2 ?s ''T'' ''e'' [] = (?s, Inl EmptyPlan)" by simp
  have ne: "[named ''b''] \<noteq> []" by simp
  from initialize_replaces_existing_chain[OF o t, of "[named ''b'']" "''e''"] ne
  have b: "\<exists>out. snd (initTaskChainV2 ?s ''T'' ''e'' [named ''b'']) = Inr out"
    and c: "initTaskChainV2 ?s ''T'' ''e'' [named ''b'']
      = initTaskChainV2 (?s\<lparr>TaskChainsV2 := (TaskChainsV2 ?s)(''T'' := None)\<rparr>)
          ''T'' ''e'' [named ''b'']"
    by blast+
  from o have n: "TaskChainsV2 ?s ''T'' \<noteq> None" by simp
  from n t a b c show ?thesis by blast
qed

subsection \<open>Failing calls\<close>

text \<open>
  C7. Whenever one of the seven operations (initialize, start, complete, insert, update,
  delete, finish) returns an error result, the session manager, and with it every
  chain, is exactly what it was before the call.
\<close>

theorem failed_operation_leaves_store:
  "wrapTaskChain sm c = Some (sm', Inl e) \<Longrightarrow> sm' = sm"
proof (cases c)
  case (ModeStep t d plan)
  assume a: "wrapTaskChain sm c = Some (sm', Inl e)"
  show ?thesis
  proof (cases "t = '''' \<or> plan = []")
    case True
    with a ModeStep show ?thesis by (auto simp: initTaskChainV2_def split: if_splits)
  next
    case False
    then obtain x xs where "plan = x # xs" by (cases plan) auto
    with False a ModeStep show ?thesis by (simp add: init_result)
  qed
next
  case (ModeStart t n)
  assume "wrapTaskChain sm c = Some (sm', Inl e)"
  with ModeStart show ?thesis
    by (auto simp: startStepV2_def Let_def split: if_splits option.splits)
next
  case (ModeComplete t n s)
  assume "wrapTaskChain sm c = Some (sm', Inl e)"
  with ModeComplete show ?thesis
    by (auto simp: completeStepV2_def renderDecisionPoint_def Let_def split: if_splits option.splits)
next
  case (ModeInsert t n p)
  assume "wrapTaskChain sm c = Some (sm', Inl e)"
  with ModeInsert show ?thesis
    by (auto simp: insertStepsV2_def Let_def split: if_splits option.splits)
next
  case (ModeUpdate t n p)
  assume "wrapTaskChain sm c = Some (sm', Inl e)"
  with ModeUpdate show ?thesis
    by (auto simp: updateStepsV2_def Let_def split: if_splits option.splits)
next
  case (ModeDelete t n p)
  assume "wrapTaskChain sm c = Some (sm', Inl e)"
  with ModeDelete show ?thesis
    by (auto simp: deleteStepsV2_def Let_def split: if_splits option.splits)
next
  case (ModeFinish t)
  assume "wrapTaskChain sm c = Some (sm', Inl e)"
  with ModeFinish show ?thesis
    by (auto simp: finishChain_def Let_def split: if_splits option.splits)
qed

theorem failed_operation_leaves_store_witness:
  "snd (startStepV2 (after_run [ModeStep ''T'' ''d'' [named ''a'']]) ''T'' 1)
     = Inl (InvalidTransition 1 StepStatusInProgress) \<and>
   fst (startStepV2 (after_run [ModeStep ''T'' ''d'' [named ''a'']]) ''T'' 1)
     = after_run [ModeStep ''T'' ''d'' [named ''a'']]"
proof -
  let ?s = "after_run [ModeStep ''T'' ''d'' [named ''a'']]"
  have r: "snd (startStepV2 ?s ''T'' 1) = Inl (InvalidTransition 1 StepStatusInProgress)"
    by (simp add: run_defs)
  then have "wrapTaskChain ?s (ModeStart ''T'' 1)
      = Some (fst (startStepV2 ?s ''T'' 1), Inl (InvalidTransition 1 StepStatusInProgress))"
    by (simp add: prod_eq_iff)
  from failed_operation_leaves_store[OF this] r show ?thesis by simp
qed

subsection \<open>Finishing\<close>

text \<open>
  C1. \<^verbatim>\<open>finishChain\<close> looks the task id up in \<^verbatim>\<open>TaskChains\<close>, the map of the linear
  chains, and never touches \<^verbatim>\<open>TaskChainsV2\<close>: no status of an adaptive chain is set.
  After \<^verbatim>\<open>T\<close> is initialized with one step, finishing \<^verbatim>\<open>T\<close> reports success (no
  validation of the steps stands in its way), and the status of the chain \<^verbatim>\<open>T\<close> is
  still \<^verbatim>\<open>running\<close>.
\<close>

theorem finish_leaves_v2_chains:
  "TaskChainsV2 (fst (finishChain sm taskID)) = TaskChainsV2 sm \<and>
   snd (finishChain (after_run [ModeStep ''T'' ''d'' [named ''a'']]) ''T'')
     = Inr (ChainFinished ''T'') \<and>
   map_option ChainStatus
     (TaskChainsV2 (fst (finishChain (after_run [ModeStep ''T'' ''d'' [named ''a'']]) ''T'')) ''T'')
     = Some ''running''"
  by (simp add: run_defs split: option.splits)


subsection \<open>The decision point\<close>




subsection \<open>Starting a step\<close>

text \<open>
  C10. A successful \<^verbatim>\<open>startStepV2\<close> on a stored chain has found a Todo step under the
  number (the first one with it) and changes only that step's status, to InProgress, and
  the chain's current step, to the number: the step keeps its other fields, every other
  step is unchanged (a step that was InProgress still is), the chain keeps its task id,
  description and status, every other chain and the V1 map are untouched. Two steps of
  one chain can so be InProgress together: after initializing \<^verbatim>\<open>T\<close> with two steps,
  starting step 2 leaves both InProgress.
\<close>

theorem start_changes_only_target:
  assumes "TaskChainsV2 sm taskID = Some chain"
      and "startStepV2 sm taskID n = (sm', Inr out)"
  shows "(\<exists>i chain'. findIdx (Steps chain) n = Some i \<and> i < length (Steps chain)
           \<and> Status (Steps chain ! i) = StepStatusTodo
           \<and> TaskChainsV2 sm' taskID = Some chain'
           \<and> length (Steps chain') = length (Steps chain)
           \<and> Steps chain' ! i = (Steps chain ! i)\<lparr>Status := StepStatusInProgress\<rparr>
           \<and> (\<forall>j<length (Steps chain). j \<noteq> i \<longrightarrow> Steps chain' ! j = Steps chain ! j)
           \<and> (\<forall>j<length (Steps chain). Status (Steps chain ! j) = StepStatusInProgress
                  \<longrightarrow> Status (Steps chain' ! j) = StepStatusInProgress)
           \<and> CurrentStep chain' = n \<and> TaskID chain' = TaskID chain
           \<and> Description chain' = Description chain \<and> ChainStatus chain' = ChainStatus chain)
         \<and> (\<forall>t. t \<noteq> taskID \<longrightarrow> TaskChainsV2 sm' t = TaskChainsV2 sm t)
         \<and> TaskChains sm' = TaskChains sm
         \<and> chainStatuses (after_run [ModeStep ''T'' ''d'' [named ''a'', named ''b''],
                                      ModeStart ''T'' 2]) ''T''
             = Some [StepStatusInProgress, StepStatusInProgress]"
proof -
  from assms obtain i where i: "findIdx (Steps chain) n = Some i"
    by (auto simp: startStepV2_def Let_def split: if_splits option.splits)
  from findIdx_Some[OF i] have il: "i < length (Steps chain)" by simp
  from assms i have st: "Status (Steps chain ! i) = StepStatusTodo"
    by (auto simp: startStepV2_def Let_def split: if_splits option.splits)
  let ?chain' = "chain\<lparr>Steps := (Steps chain)[i := (Steps chain ! i)\<lparr>Status := StepStatusInProgress\<rparr>],
                       CurrentStep := n\<rparr>"
  from assms i st have sm': "sm' = sm\<lparr>TaskChainsV2 := (TaskChainsV2 sm)(taskID \<mapsto> ?chain')\<rparr>"
    by (auto simp: startStepV2_def Let_def split: if_splits option.splits)
  have a: "\<exists>i chain'. findIdx (Steps chain) n = Some i \<and> i < length (Steps chain)
           \<and> Status (Steps chain ! i) = StepStatusTodo
           \<and> TaskChainsV2 sm' taskID = Some chain'
           \<and> length (Steps chain') = length (Steps chain)
           \<and> Steps chain' ! i = (Steps chain ! i)\<lparr>Status := StepStatusInProgress\<rparr>
           \<and> (\<forall>j<length (Steps chain). j \<noteq> i \<longrightarrow> Steps chain' ! j = Steps chain ! j)
           \<and> (\<forall>j<length (Steps chain). Status (Steps chain ! j) = StepStatusInProgress
                  \<longrightarrow> Status (Steps chain' ! j) = StepStatusInProgress)
           \<and> CurrentStep chain' = n \<and> TaskID chain' = TaskID chain
           \<and> Description chain' = Description chain \<and> ChainStatus chain' = ChainStatus chain"
    apply (rule exI[of _ i])
    apply (rule exI[of _ ?chain'])
    using i il st by (simp add: sm' nth_list_update)
  have b: "\<forall>t. t \<noteq> taskID \<longrightarrow> TaskChainsV2 sm' t = TaskChainsV2 sm t"
    by (simp add: sm')
  have c: "TaskChains sm' = TaskChains sm" by (simp add: sm')
  have d: "chainStatuses (after_run [ModeStep ''T'' ''d'' [named ''a'', named ''b''],
                                      ModeStart ''T'' 2]) ''T''
             = Some [StepStatusInProgress, StepStatusInProgress]"
    by (simp add: chainStatuses_def run_defs)
  from a b c d show ?thesis by blast
qed

theorem start_changes_only_target_witness:
  "\<exists>out chain chain'.
     startStepV2 (after_run [ModeStep ''T'' ''d'' [named ''a'', named ''b'']]) ''T'' 2
       = (fst (startStepV2 (after_run [ModeStep ''T'' ''d'' [named ''a'', named ''b'']]) ''T'' 2),
          Inr out) \<and>
     TaskChainsV2 (after_run [ModeStep ''T'' ''d'' [named ''a'', named ''b'']]) ''T'' = Some chain \<and>
     TaskChainsV2 (fst (startStepV2 (after_run [ModeStep ''T'' ''d'' [named ''a'', named ''b'']])
                          ''T'' 2)) ''T'' = Some chain' \<and>
     findIdx (Steps chain) 2 = Some 1 \<and>
     Steps chain' ! 1 = (Steps chain ! 1)\<lparr>Status := StepStatusInProgress\<rparr> \<and>
     Steps chain' ! 0 = Steps chain ! 0 \<and>
     Status (Steps chain ! 0) = StepStatusInProgress \<and>
     CurrentStep chain' = 2"
proof -
  let ?s = "after_run [ModeStep ''T'' ''d'' [named ''a'', named ''b'']]"
  let ?r = "startStepV2 ?s ''T'' 2"
  have "\<exists>out. snd ?r = Inr out" by (simp add: run_defs)
  then obtain out where out: "?r = (fst ?r, Inr out)" by (metis prod.collapse)
  have "\<exists>chain. TaskChainsV2 ?s ''T'' = Some chain" by (simp add: run_defs)
  then obtain chain where ch: "TaskChainsV2 ?s ''T'' = Some chain" by blast
  then have steps: "Steps chain =
          [\<lparr>Number = 1, Name = ''a'', Input = '''', Status = StepStatusInProgress, Summary = ''''\<rparr>,
           \<lparr>Number = 2, Name = ''b'', Input = '''', Status = StepStatusTodo, Summary = ''''\<rparr>]"
    by (auto simp: run_defs)
  from start_changes_only_target[OF ch out] obtain i chain' where
    c: "findIdx (Steps chain) 2 = Some i" "TaskChainsV2 (fst ?r) ''T'' = Some chain'"
       "Steps chain' ! i = (Steps chain ! i)\<lparr>Status := StepStatusInProgress\<rparr>"
       "\<forall>j<length (Steps chain). j \<noteq> i \<longrightarrow> Steps chain' ! j = Steps chain ! j"
       "CurrentStep chain' = 2"
    by blast
  from c(1) steps have i: "i = 1" by simp
  from c(4) i steps have z: "Steps chain' ! 0 = Steps chain ! 0" by simp
  from steps have p: "Status (Steps chain ! 0) = StepStatusInProgress" by simp
  from out ch c(1,2,3,5) i z p show ?thesis by blast
qed

subsection \<open>Deleting one step\<close>

text \<open>
  C8. The claim (a single step is deleted only when it is Todo) does not hold: only an
  InProgress step is refused. With step 1 of \<^verbatim>\<open>T\<close> Complete, deleting step 1 succeeds
  and removes it.
\<close>

theorem delete_completed_step_counterexample:
  "chainStatuses (after_run [ModeStep ''T'' ''d'' [named ''a'', named ''b''],
                             ModeComplete ''T'' 1 ''done'']) ''T''
     = Some [StepStatusComplete, StepStatusTodo] \<and>
   snd (deleteStepsV2 (after_run [ModeStep ''T'' ''d'' [named ''a'', named ''b''],
                                  ModeComplete ''T'' 1 ''done'']) ''T'' 1 '''')
     = Inr (StepDeleted 1 ''a'') \<and>
   chainStatuses (fst (deleteStepsV2 (after_run [ModeStep ''T'' ''d'' [named ''a'', named ''b''],
                                  ModeComplete ''T'' 1 ''done'']) ''T'' 1 '''')) ''T''
     = Some [StepStatusTodo]"
  by (simp add: chainStatuses_def run_defs)

text \<open>
  C8, as amended. On a stored chain, deleting with a scope other than \<^verbatim>\<open>remaining\<close> and
  a target number above 0: fails with \<open>StepNotFound\<close> when no step has the number;
  fails with \<open>CannotDeleteActive\<close>, changing nothing, when the first step with the number is
  InProgress; and otherwise, the step being Todo or Complete, removes exactly that
  step. A target number of 0 or below fails with the error of a missing target.
\<close>

theorem delete_single_step:
  assumes "TaskChainsV2 sm taskID = Some chain" and "taskID \<noteq> ''''"
      and "scope \<noteq> ''remaining''"
  shows "(target \<le> 0 \<longrightarrow> deleteStepsV2 sm taskID target scope = (sm, Inl NoDeleteTarget)) \<and>
         (target > 0 \<longrightarrow>
            ((\<forall>s \<in> set (Steps chain). Number s \<noteq> target) \<longrightarrow>
               deleteStepsV2 sm taskID target scope = (sm, Inl (StepNotFound target))) \<and>
            (\<forall>i. findIdx (Steps chain) target = Some i \<longrightarrow>
               (Status (Steps chain ! i) = StepStatusInProgress \<longrightarrow>
                  deleteStepsV2 sm taskID target scope = (sm, Inl (CannotDeleteActive target))) \<and>
               (Status (Steps chain ! i) \<noteq> StepStatusInProgress \<longrightarrow>
                  deleteStepsV2 sm taskID target scope =
                    (sm\<lparr>TaskChainsV2 := (TaskChainsV2 sm)(taskID \<mapsto>
                          chain\<lparr>Steps := take i (Steps chain) @ drop (Suc i) (Steps chain)\<rparr>)\<rparr>,
                     Inr (StepDeleted target (Name (Steps chain ! i)))))))"
  using assms
  by (auto simp: deleteStepsV2_def Let_def findIdx_None[symmetric] split: option.splits)

theorem delete_single_step_witness:
  "(\<exists>chain. TaskChainsV2 (after_run [ModeStep ''T'' ''d'' [named ''a'', named ''b'']]) ''T''
        = Some chain) \<and>
   snd (deleteStepsV2 (after_run [ModeStep ''T'' ''d'' [named ''a'', named ''b'']]) ''T'' 0 '''')
     = Inl NoDeleteTarget \<and>
   snd (deleteStepsV2 (after_run [ModeStep ''T'' ''d'' [named ''a'', named ''b'']]) ''T'' 3 '''')
     = Inl (StepNotFound 3) \<and>
   snd (deleteStepsV2 (after_run [ModeStep ''T'' ''d'' [named ''a'', named ''b'']]) ''T'' 1 '''')
     = Inl (CannotDeleteActive 1) \<and>
   snd (deleteStepsV2 (after_run [ModeStep ''T'' ''d'' [named ''a'', named ''b'']]) ''T'' 2 '''')
     = Inr (StepDeleted 2 ''b'')"
proof -
  let ?s = "after_run [ModeStep ''T'' ''d'' [named ''a'', named ''b'']]"
  have "\<exists>chain. TaskChainsV2 ?s ''T'' = Some chain" by (simp add: run_defs)
  then obtain chain where ch: "TaskChainsV2 ?s ''T'' = Some chain" by blast
  then have steps: "Steps chain =
          [\<lparr>Number = 1, Name = ''a'', Input = '''', Status = StepStatusInProgress, Summary = ''''\<rparr>,
           \<lparr>Number = 2, Name = ''b'', Input = '''', Status = StepStatusTodo, Summary = ''''\<rparr>]"
    by (auto simp: run_defs)
  have t: "''T'' \<noteq> ''''" and r: "'''' \<noteq> ''remaining''" by simp_all
  from delete_single_step[OF ch t r, of 0]
  have a: "snd (deleteStepsV2 ?s ''T'' 0 '''') = Inl NoDeleteTarget" by simp
  from delete_single_step[OF ch t r, of 3] steps
  have b: "snd (deleteStepsV2 ?s ''T'' 3 '''') = Inl (StepNotFound 3)" by simp
  from delete_single_step[OF ch t r, of 1] steps
  have c: "snd (deleteStepsV2 ?s ''T'' 1 '''') = Inl (CannotDeleteActive 1)" by simp
  from delete_single_step[OF ch t r, of 2] steps
  have d: "snd (deleteStepsV2 ?s ''T'' 2 '''') = Inr (StepDeleted 2 ''b'')" by simp
  from ch a b c d show ?thesis by blast
qed


subsection \<open>Order of the step numbers\<close>



lemma map_Number_update_Summary_Status [simp]:
  "map Number (xs[i := (xs ! i)\<lparr>Summary := su, Status := st\<rparr>]) = map Number xs"
  by (cases "i < length xs") (auto intro!: nth_equalityI simp: nth_list_update)













subsection \<open>The lifecycle of a step\<close>

















end
